theory Spec2Isabelle
  imports Complex_Main "HOL-Library.Log_Nat"
begin

section \<open>UserProfileDesktop: the click handler of the profile button\<close>

text \<open>
  \<^verbatim>\<open>src/ui/snippets/user/profile/UserProfileDesktop.tsx\<close>, lines 28 to 40:
  \<^verbatim>\<open>
  const handleProfileButtonClick = React.useCallback(() => {
    if (profileQuery.data) { profileMenu.onOpen(); return; }
    if (router.pathname === '/apps/[id]') { signInWithWallet.start(); return; }
    authModal.onOpen();
  }, [ ... ]);
  \<close>
  The handler reads two values of the render it was created in, \<open>profileQuery.data\<close>
  (a profile object or \<open>undefined\<close>; an object is always truthy) and
  \<open>router.pathname\<close>, and does nothing but call collaborators. The model returns the
  calls it makes, in order.
\<close>

datatype effect = ProfileMenuOpen | SignInWithWalletStart | AuthModalOpen

definition handleProfileButtonClick :: "'profile option \<Rightarrow> string \<Rightarrow> effect list" where
  "handleProfileButtonClick profileQuery_data router_pathname =
     (case profileQuery_data of
        Some _ \<Rightarrow> [ProfileMenuOpen]
      | None \<Rightarrow>
          if router_pathname = ''/apps/[id]'' then [SignInWithWalletStart]
          else [AuthModalOpen])"

section \<open>ColumnsButton: the change handler of a column checkbox\<close>

text \<open>
  \<^verbatim>\<open>src/ui/advancedFilter/ColumnsButton.tsx\<close>, lines 25 to 30:
  \<^verbatim>\<open>
  const onCheckboxClick = React.useCallback((event: ChangeEvent<HTMLInputElement>) => {
    const newCols = { ...columns };
    const id = event.target.id as ColumnsIds;
    newCols[id] = event.target.checked;
    onChange(newCols);
  }, [ onChange, columns ]);
  \<close>
  \<open>columns\<close> is a reference to an object owned by the caller, so the objects live in an
  explicit store: \<open>objs\<close> gives the properties of the object at an address and every
  address below \<open>fresh\<close> is allocated. The spread \<open>{ ...columns }\<close> allocates a new
  object with the same properties; the assignment writes one property of the new object.
  The handler returns the store it leaves behind and the calls of \<open>onChange\<close> it has
  made by the time it returns, each with the address it passed.
\<close>

type_synonym addr = nat
type_synonym obj = "string \<rightharpoonup> bool"

record store =
  objs :: "addr \<Rightarrow> obj"
  fresh :: addr

record change_event =
  target_id :: string
  target_checked :: bool

datatype callback = OnChange addr

definition spread_copy :: "store \<Rightarrow> addr \<Rightarrow> store \<times> addr" where
  "spread_copy s a = (s\<lparr>objs := (objs s)(fresh s := objs s a), fresh := Suc (fresh s)\<rparr>, fresh s)"

definition assign_prop :: "store \<Rightarrow> addr \<Rightarrow> string \<Rightarrow> bool \<Rightarrow> store" where
  "assign_prop s a k v = s\<lparr>objs := (objs s)(a := (objs s a)(k \<mapsto> v))\<rparr>"

definition onCheckboxClick :: "store \<Rightarrow> addr \<Rightarrow> change_event \<Rightarrow> store \<times> callback list" where
  "onCheckboxClick s columns event =
     (let (s1, newCols) = spread_copy s columns;
          id = target_id event;
          s2 = assign_prop s1 newCols id (target_checked event)
      in (s2, [OnChange newCols]))"

text \<open>
  The checkbox is rendered with \<open>defaultChecked={ columns[col.id] }\<close> (line 50): it is
  uncontrolled, so the box keeps its own checked state, which starts as the map's value
  when the box is mounted and flips at each change event; \<open>event.target.checked\<close> is
  the state after the flip.
\<close>

definition change_of :: "string \<Rightarrow> bool \<Rightarrow> change_event" where
  "change_of k shown = \<lparr>target_id = k, target_checked = (\<not> shown)\<rparr>"

section \<open>AddressDetails: the JavaScript values it computes with\<close>

text \<open>
  The component \<^verbatim>\<open>AddressDetails\<close> (the second unit of
  \<^verbatim>\<open>src/ui/advancedFilter/ColumnsButton.tsx\<close>, lines 64 to 207) reads values whose
  JavaScript type has several shapes, converts strings to numbers and concatenates values
  into strings. This section models those operations of the language.

  \<open>router.query.id\<close> has the type \<open>string | string[] | undefined\<close>, and a path template
  of an explorer may be missing; \<open>Boolean\<close> is the truthiness test and \<open>ToString\<close> the
  conversion that a template literal and the operator \<open>+\<close> with a string apply.
\<close>

datatype error = TypeError

datatype jsval = Undefined | Str string | Arr "string list"

fun Boolean :: "jsval \<Rightarrow> bool" where
  "Boolean Undefined = False"
| "Boolean (Str s) = (s \<noteq> [])"
| "Boolean (Arr xs) = True"

fun join :: "string \<Rightarrow> string list \<Rightarrow> string" where
  "join sep [] = []"
| "join sep [x] = x"
| "join sep (x # y # zs) = x @ sep @ join sep (y # zs)"

fun ToString :: "jsval \<Rightarrow> string" where
  "ToString Undefined = ''undefined''"
| "ToString (Str s) = s"
| "ToString (Arr xs) = join '','' xs"

text \<open>
  A Number is an IEEE 754 double: not-a-number, an infinity, negative zero, or a finite
  value, held here as the rational it denotes (\<open>Fin 0\<close> is positive zero).
\<close>

datatype jsnum = NaN | PosInfinity | NegInfinity | NegZero | Fin rat

text \<open>\<open>Object.is\<close> on numbers: \<open>NaN\<close> is itself, and the two zeros differ.\<close>

definition Object_is :: "jsnum \<Rightarrow> jsnum \<Rightarrow> bool" where
  "Object_is x y = (x = y)"

text \<open>The comparison \<open>x > c\<close> of a Number with a finite literal; false when \<open>x\<close> is \<open>NaN\<close>.\<close>

fun js_gt :: "jsnum \<Rightarrow> rat \<Rightarrow> bool" where
  "js_gt NaN c = False"
| "js_gt PosInfinity c = True"
| "js_gt NegInfinity c = False"
| "js_gt NegZero c = (c < 0)"
| "js_gt (Fin q) c = (c < q)"

subsection \<open>Rounding a rational to the nearest double\<close>

definition pow :: "rat \<Rightarrow> int \<Rightarrow> rat" where
  "pow b e = (if 0 \<le> e then b ^ nat e else 1 / b ^ nat (- e))"

function bit_length :: "int \<Rightarrow> int" where
  "bit_length n = (if n \<le> 0 then 0 else 1 + bit_length (n div 2))"
  by pat_completeness auto
termination
  by (relation "measure nat") auto

declare bit_length.simps [simp del]

text \<open>For \<open>q > 0\<close>, the exponent \<open>e\<close> with \<open>2^e \<le> q < 2^(e+1)\<close>.\<close>

definition floor_log2 :: "rat \<Rightarrow> int" where
  "floor_log2 q =
     (let (a, b) = quotient_of q;
          k = bit_length a - bit_length b
      in if pow 2 k \<le> q then k else k - 1)"

definition round_half_even :: "rat \<Rightarrow> int" where
  "round_half_even x =
     (let f = \<lfloor>x\<rfloor>; d = x - of_int f
      in if d < 1 / 2 then f else if 1 / 2 < d then f + 1 else if even f then f else f + 1)"

text \<open>
  Round to nearest, ties to even, with 53 bits of precision and the smallest exponent
  \<open>-1022\<close> (below it the spacing stays \<open>2^-1074\<close>: the subnormal range); \<open>None\<close> when
  the rounded value is \<open>2^1024\<close> or more, which is an infinity.
\<close>

definition round_to_double :: "rat \<Rightarrow> rat option" where
  "round_to_double q =
     (if q = 0 then Some 0
      else let e = max (floor_log2 q) (- 1022);
               ulp = pow 2 (e - 52);
               r = of_int (round_half_even (q / ulp)) * ulp
           in if pow 2 1024 \<le> r then None else Some r)"

definition Number_value :: "bool \<Rightarrow> rat \<Rightarrow> jsnum" where
  "Number_value neg mv =
     (case round_to_double mv of
        None \<Rightarrow> if neg then NegInfinity else PosInfinity
      | Some r \<Rightarrow> if r = 0 then (if neg then NegZero else Fin 0)
                  else Fin (if neg then - r else r))"

subsection \<open>\<open>Number(string)\<close>\<close>

text \<open>
  Applied to a string, \<open>Number\<close> is the conversion \<open>StringToNumber\<close> of the language:
  white space is trimmed at both ends; the empty string is \<open>0\<close>; what is left must be a
  \<open>StrNumericLiteral\<close>, that is an unsigned binary, octal or hexadecimal integer with its
  prefix, or an optionally signed \<open>Infinity\<close> or decimal literal with an optional
  fraction and exponent; anything else is \<open>NaN\<close>. The characters of a \<open>string\<close> stand
  for the code units below 256, so the white space characters are those with the codes
  9 to 13, 32 and 160.
\<close>

definition StrWhiteSpaceChar :: "char \<Rightarrow> bool" where
  "StrWhiteSpaceChar c = (of_char c \<in> {9, 10, 11, 12, 13, 32, 160 :: nat})"

definition trim :: "string \<Rightarrow> string" where
  "trim s = rev (dropWhile StrWhiteSpaceChar (rev (dropWhile StrWhiteSpaceChar s)))"

definition digit_of :: "char \<Rightarrow> int option" where
  "digit_of c =
     (let n = (of_char c :: int) in
      if 48 \<le> n \<and> n \<le> 57 then Some (n - 48)
      else if 97 \<le> n \<and> n \<le> 102 then Some (n - 87)
      else if 65 \<le> n \<and> n \<le> 70 then Some (n - 55)
      else None)"

definition is_digit :: "int \<Rightarrow> char \<Rightarrow> bool" where
  "is_digit b c = (case digit_of c of Some d \<Rightarrow> d < b | None \<Rightarrow> False)"

definition digits_value :: "int \<Rightarrow> string \<Rightarrow> int" where
  "digits_value b ds =
     foldl (\<lambda>a c. b * a + (case digit_of c of Some d \<Rightarrow> d | None \<Rightarrow> 0)) 0 ds"

definition split_sign :: "string \<Rightarrow> bool \<times> string" where
  "split_sign s =
     (case s of
        [] \<Rightarrow> (False, s)
      | c # t \<Rightarrow> if c = CHR ''-'' then (True, t)
                 else if c = CHR ''+'' then (False, t)
                 else (False, s))"

definition ExponentPart :: "string \<Rightarrow> int option" where
  "ExponentPart s =
     (case s of
        [] \<Rightarrow> Some 0
      | c # t \<Rightarrow>
          if c = CHR ''e'' \<or> c = CHR ''E'' then
            (let (neg, ds) = split_sign t
             in if ds \<noteq> [] \<and> list_all (is_digit 10) ds
                then Some (if neg then - digits_value 10 ds else digits_value 10 ds)
                else None)
          else None)"

datatype mv = MVInfinity | MV rat

definition StrUnsignedDecimalLiteral :: "string \<Rightarrow> mv option" where
  "StrUnsignedDecimalLiteral s =
     (if s = ''Infinity'' then Some MVInfinity
      else
        let ip = takeWhile (is_digit 10) s;
            r1 = dropWhile (is_digit 10) s;
            (fp, r2) = (case r1 of
                          [] \<Rightarrow> ([], r1)
                        | c # t \<Rightarrow>
                            if c = CHR ''.''
                            then (takeWhile (is_digit 10) t, dropWhile (is_digit 10) t)
                            else ([], r1))
        in if ip = [] \<and> fp = [] then None
           else case ExponentPart r2 of
                  None \<Rightarrow> None
                | Some ex \<Rightarrow>
                    Some (MV (of_int (digits_value 10 (ip @ fp)) * pow 10 (ex - int (length fp)))))"

definition NonDecimalIntegerLiteral :: "string \<Rightarrow> int option" where
  "NonDecimalIntegerLiteral s =
     (case s of
        z # x # ds \<Rightarrow>
          if z = CHR ''0'' \<and> ds \<noteq> [] then
            (if (x = CHR ''x'' \<or> x = CHR ''X'') \<and> list_all (is_digit 16) ds
               then Some (digits_value 16 ds)
             else if (x = CHR ''o'' \<or> x = CHR ''O'') \<and> list_all (is_digit 8) ds
               then Some (digits_value 8 ds)
             else if (x = CHR ''b'' \<or> x = CHR ''B'') \<and> list_all (is_digit 2) ds
               then Some (digits_value 2 ds)
             else None)
          else None
      | _ \<Rightarrow> None)"

definition StringToNumber :: "string \<Rightarrow> jsnum" where
  "StringToNumber str =
     (let s = trim str in
      if s = [] then Fin 0
      else case NonDecimalIntegerLiteral s of
             Some n \<Rightarrow> Number_value False (of_int n)
           | None \<Rightarrow>
               (let (neg, u) = split_sign s in
                case StrUnsignedDecimalLiteral u of
                  None \<Rightarrow> NaN
                | Some MVInfinity \<Rightarrow> if neg then NegInfinity else PosInfinity
                | Some (MV q) \<Rightarrow> Number_value neg q))"

definition Number :: "string \<Rightarrow> jsnum" where
  "Number s = StringToNumber s"

section \<open>AddressDetails: the component\<close>

text \<open>
  The result of a query, as the component reads it: the two flags and the data
  (\<open>None\<close> is \<open>undefined\<close>). The component receives \<open>addressQuery\<close> as a property and
  gets \<open>countersQuery\<close> and \<open>tokenBalancesQuery\<close> from \<open>useQuery\<close>.
\<close>

record 'a UseQueryResult =
  isLoading :: bool
  isError :: bool
  data :: "'a option"

text \<open>The fields of the payloads that the component reads.\<close>

record TAddress =
  hash :: string

record AddressCounters =
  transactions_count :: string
  token_transfers_count :: string
  gas_usage_count :: string
  validations_count :: string

text \<open>An entry of \<open>appConfig.network.explorers\<close>, with the two path templates read here.\<close>

record explorer_paths =
  tx :: jsval
  address :: jsval

record NetworkExplorer =
  title :: string
  baseUrl :: string
  paths :: explorer_paths

text \<open>
  What the component takes from its surroundings: the route parameter, the mobile flag of
  \<open>useIsMobile\<close>, the configured explorers, and three functions of the host that it
  calls. \<open>URL_toString input base\<close> is \<open>new URL(input, base).toString()\<close>, \<open>None\<close>
  when the constructor throws a \<open>TypeError\<close>; \<open>toLocaleString\<close> formats a Number in the
  locale of the host; \<open>BigNumber_toFormat s\<close> is \<open>BigNumber(s).toFormat()\<close>.
\<close>

record host =
  router_query_id :: jsval
  isMobile :: bool
  network_explorers :: "NetworkExplorer list"
  URL_toString :: "string \<Rightarrow> string \<Rightarrow> string option"
  toLocaleString :: "jsnum \<Rightarrow> string"
  BigNumber_toFormat :: "string \<Rightarrow> string"

subsection \<open>The two queries the component sets up (lines 101 to 115)\<close>

text \<open>
  \<^verbatim>\<open>
  const countersQuery = useQuery<unknown, unknown, AddressCounters>(
    [ QueryKeys.addressCounters, router.query.id ],
    async() => await fetch(`/node-api/addresses/${ router.query.id }/counters`),
    { enabled: Boolean(router.query.id) && Boolean(addressQuery.data) },
  );
  \<close>
  and the same for \<open>tokenBalancesQuery\<close> with \<open>QueryKeys.addressTokenBalances\<close> and
  \<open>/token-balances\<close>. The query function calls \<open>fetch\<close>, the function returned by
  the hook \<open>useFetch\<close>, with the resource alone, no parameters. \<open>addressQuery.data\<close> is
  an object or \<open>undefined\<close>, so it is truthy when present.
\<close>

datatype http_method = GET | POST | PUT | PATCH | DELETE

record fetch_params =
  params_method :: "http_method option"

record http_request =
  request_method :: http_method
  request_url :: string

text \<open>
  Modelled from the spec: the hook \<^verbatim>\<open>lib/hooks/useFetch\<close> and the function it returns
  are not among the sources. The spec has it as the "generic fetch hook (performs
  authenticated HTTP calls)" and the two resources requested here as "HTTP GET endpoints
  consumed by AddressDetailsPanel": called with a resource alone it issues a GET request
  for that resource, and parameters may name another method.
\<close>

definition fetch :: "string \<Rightarrow> fetch_params option \<Rightarrow> http_request" where
  "fetch resource params =
     \<lparr>request_method =
        (case params of
           None \<Rightarrow> GET
         | Some p \<Rightarrow> (case params_method p of None \<Rightarrow> GET | Some m \<Rightarrow> m)),
      request_url = resource\<rparr>"

text \<open>
  What \<open>useQuery\<close> is given: the key, the request that the query function issues when
  the query runs, and the \<open>enabled\<close> option.
\<close>

datatype QueryKeys = addressCounters | addressTokenBalances

record query_setup =
  queryKey :: "QueryKeys \<times> jsval"
  queryFn :: http_request
  enabled :: bool

definition countersQuery_setup :: "host \<Rightarrow> TAddress UseQueryResult \<Rightarrow> query_setup" where
  "countersQuery_setup h addressQuery =
     \<lparr>queryKey = (addressCounters, router_query_id h),
      queryFn = fetch (''/node-api/addresses/'' @ ToString (router_query_id h) @ ''/counters'') None,
      enabled = (Boolean (router_query_id h) \<and> data addressQuery \<noteq> None)\<rparr>"

definition tokenBalancesQuery_setup :: "host \<Rightarrow> TAddress UseQueryResult \<Rightarrow> query_setup" where
  "tokenBalancesQuery_setup h addressQuery =
     \<lparr>queryKey = (addressTokenBalances, router_query_id h),
      queryFn = fetch (''/node-api/addresses/'' @ ToString (router_query_id h) @ ''/token-balances'') None,
      enabled = (Boolean (router_query_id h) \<and> data addressQuery \<noteq> None)\<rparr>"

subsection \<open>What the component renders (lines 117 to 204)\<close>

text \<open>
  The rendered element, with the parts that depend on the data. \<open>TokenSelectMobile\<close> and
  \<open>TokenSelectDesktop\<close> stand for the selector followed by the wallet button;
  \<open>Text\<close> is a string child.
\<close>

datatype hash_text = HashStringShorten string | PlainHash string

record ExternalLink =
  link_key :: string
  link_title :: string
  href :: string

datatype 'tb tokens_cell = TokenSelectMobile "'tb list" | TokenSelectDesktop "'tb list" | Text string

record 'tb summary =
  icon_hash :: string
  hash_shown :: hash_text
  copy_text :: string
  verify_links :: "ExternalLink list option"
  tokens :: "'tb tokens_cell"
  transactions :: string
  transfers :: string
  gas_used :: string
  blocks_validated :: "string option"

datatype 'tb element = AddressDetailsSkeleton | DataFetchAlert | Box "'tb summary"

text \<open>
  \<^verbatim>\<open>
  const explorers = appConfig.network.explorers.filter(({ paths }) => paths.address);
  ...
  { explorers.map((explorer) => {
    const url = new URL(explorer.paths.tx + '/' + router.query.id, explorer.baseUrl);
    return <ExternalLink key={ explorer.baseUrl } title={ explorer.title } href={ url.toString() }/>;
  }) }
  \<close>
\<close>

definition explorers_with_address :: "host \<Rightarrow> NetworkExplorer list" where
  "explorers_with_address h = filter (\<lambda>e. Boolean (address (paths e))) (network_explorers h)"

definition url_input :: "host \<Rightarrow> NetworkExplorer \<Rightarrow> string" where
  "url_input h explorer = ToString (tx (paths explorer)) @ ''/'' @ ToString (router_query_id h)"

fun explorer_links :: "host \<Rightarrow> NetworkExplorer list \<Rightarrow> error + ExternalLink list" where
  "explorer_links h [] = Inr []"
| "explorer_links h (explorer # rest) =
     (case URL_toString h (url_input h explorer) (baseUrl explorer) of
        None \<Rightarrow> Inl TypeError
      | Some url \<Rightarrow>
          (case explorer_links h rest of
             Inl e \<Rightarrow> Inl e
           | Inr links \<Rightarrow>
               Inr (\<lparr>link_key = baseUrl explorer, link_title = title explorer, href = url\<rparr> # links)))"

text \<open>
  \<^verbatim>\<open>
  const validationsCount = Number(countersQuery.data.validations_count);
  ...
  { !Object.is(validationsCount, NaN) && validationsCount > 0 && (
    <DetailsInfoItem title="Blocks validated" ...>{ validationsCount.toLocaleString() }</DetailsInfoItem>
  ) }
  \<close>
\<close>

definition blocks_validated_item :: "host \<Rightarrow> jsnum \<Rightarrow> string option" where
  "blocks_validated_item h validationsCount =
     (if \<not> Object_is validationsCount NaN \<and> js_gt validationsCount 0
      then Some (toLocaleString h validationsCount)
      else None)"

text \<open>
  \<^verbatim>\<open>
  { tokenBalancesQuery.data.length > 0 ? (
    <>{ isMobile ? <TokenSelectMobile data={ ... }/> : <TokenSelectDesktop data={ ... }/> }
      <Button ...>...</Button></>
  ) : ( '-' ) }
  \<close>
\<close>

definition tokens_item :: "host \<Rightarrow> 'tb list \<Rightarrow> 'tb tokens_cell" where
  "tokens_item h tokenBalances =
     (if length tokenBalances > 0
      then (if isMobile h then TokenSelectMobile tokenBalances else TokenSelectDesktop tokenBalances)
      else Text ''-'')"

text \<open>
  The render function. Reading a property of \<open>undefined\<close> throws a \<open>TypeError\<close>, and so
  does \<open>new URL\<close> on an invalid URL; a throw ends the render.
\<close>

definition AddressDetails ::
  "host \<Rightarrow> TAddress UseQueryResult \<Rightarrow> AddressCounters UseQueryResult \<Rightarrow>
   'tb list UseQueryResult \<Rightarrow> error + 'tb element" where
  "AddressDetails h addressQuery countersQuery tokenBalancesQuery =
     (if isLoading countersQuery \<or> isLoading addressQuery \<or> isLoading tokenBalancesQuery
        then Inr AddressDetailsSkeleton
      else if isError countersQuery \<or> isError addressQuery \<or> isError tokenBalancesQuery
        then Inr DataFetchAlert
      else
        let explorers = explorers_with_address h in
        case data countersQuery of
          None \<Rightarrow> Inl TypeError
        | Some counters \<Rightarrow>
            let validationsCount = Number (validations_count counters) in
            case data addressQuery of
              None \<Rightarrow> Inl TypeError
            | Some addr \<Rightarrow>
                case (if length explorers > 0
                      then map_sum id Some (explorer_links h explorers)
                      else Inr None) of
                  Inl e \<Rightarrow> Inl e
                | Inr links \<Rightarrow>
                    case data tokenBalancesQuery of
                      None \<Rightarrow> Inl TypeError
                    | Some tokenBalances \<Rightarrow>
                        Inr (Box
                          \<lparr>icon_hash = hash addr,
                           hash_shown = (if isMobile h then HashStringShorten (hash addr)
                                         else PlainHash (hash addr)),
                           copy_text = hash addr,
                           verify_links = links,
                           tokens = tokens_item h tokenBalances,
                           transactions = toLocaleString h (Number (transactions_count counters)),
                           transfers = toLocaleString h (Number (token_transfers_count counters)),
                           gas_used = BigNumber_toFormat h (gas_usage_count counters),
                           blocks_validated = blocks_validated_item h validationsCount\<rparr>))"

subsection \<open>Notions used to state the properties\<close>

text \<open>
  \<open>links_resolve h\<close>: the URL constructor accepts what the component passes to it for
  every explorer that has an address path.
\<close>

definition links_resolve :: "host \<Rightarrow> bool" where
  "links_resolve h =
     list_all (\<lambda>e. URL_toString h (url_input h e) (baseUrl e) \<noteq> None) (explorers_with_address h)"

definition link_of :: "host \<Rightarrow> NetworkExplorer \<Rightarrow> ExternalLink \<Rightarrow> bool" where
  "link_of h e l =
     (link_key l = baseUrl e \<and> link_title l = title e \<and>
      URL_toString h (ToString (tx (paths e)) @ ''/'' @ ToString (router_query_id h)) (baseUrl e)
        = Some (href l))"

text \<open>
  \<open>with_address_paths f h\<close> is the host \<open>h\<close> with the address path template of every
  configured explorer \<open>e\<close> replaced by \<open>f e\<close>.
\<close>

definition with_address_paths :: "(NetworkExplorer \<Rightarrow> jsval) \<Rightarrow> host \<Rightarrow> host" where
  "with_address_paths f h =
     h\<lparr>network_explorers :=
         map (\<lambda>e. e\<lparr>paths := (paths e)\<lparr>address := f e\<rparr>\<rparr>) (network_explorers h)\<rparr>"

section \<open>Example inputs\<close>

text \<open>
  A store with one object, the visibility map \<open>{ a: true }\<close> at address 0, and a change
  event of the checkbox \<open>a\<close> whose state after the change is checked.
\<close>

definition one_column :: store where
  "one_column = \<lparr>objs = (\<lambda>_. Map.empty)(0 := [''a'' \<mapsto> True]), fresh = 1\<rparr>"

definition checked_a :: change_event where
  "checked_a = \<lparr>target_id = ''a'', target_checked = True\<rparr>"

text \<open>
  A host for the address page of \<open>0xabc\<close> on a desktop, with two configured explorers of
  which the first has an address path. Its locale prints a whole number that is not
  negative as its decimal digits (the examples stay below 1000, where no grouping
  applies); URL resolution is given for the inputs of the examples, an origin as the base
  and a path that starts with a slash.
\<close>

fun decimal :: "nat \<Rightarrow> string" where
  "decimal n = (if n < 10 then [char_of (48 + n)] else decimal (n div 10) @ [char_of (48 + n mod 10)])"

declare decimal.simps [simp del]

definition whole_digits :: "jsnum \<Rightarrow> string" where
  "whole_digits x =
     (case x of
        Fin q \<Rightarrow> if 0 \<le> q \<and> of_int \<lfloor>q\<rfloor> = q then decimal (nat \<lfloor>q\<rfloor>) else ''?''
      | _ \<Rightarrow> ''?'')"

definition example_host :: host where
  "example_host =
     \<lparr>router_query_id = Str ''0xabc'',
      isMobile = False,
      network_explorers =
        [\<lparr>title = ''Etherscan'', baseUrl = ''https://etherscan.io'',
          paths = \<lparr>tx = Str ''/tx'', address = Str ''/address''\<rparr>\<rparr>,
         \<lparr>title = ''Other'', baseUrl = ''https://other.example'',
          paths = \<lparr>tx = Str ''/transaction'', address = Undefined\<rparr>\<rparr>],
      URL_toString = (\<lambda>input base. if base = [] then None else Some (base @ input)),
      toLocaleString = whole_digits,
      BigNumber_toFormat = (\<lambda>s. s)\<rparr>"

definition loaded_address :: "TAddress UseQueryResult" where
  "loaded_address = \<lparr>isLoading = False, isError = False, data = Some \<lparr>hash = ''0xabc''\<rparr>\<rparr>"

definition loaded_counters :: "string \<Rightarrow> AddressCounters UseQueryResult" where
  "loaded_counters validations =
     \<lparr>isLoading = False, isError = False,
      data = Some \<lparr>transactions_count = ''12'', token_transfers_count = ''3'',
                   gas_usage_count = ''21000'', validations_count = validations\<rparr>\<rparr>"

definition loaded_tokens :: "nat list \<Rightarrow> nat list UseQueryResult" where
  "loaded_tokens ts = \<lparr>isLoading = False, isError = False, data = Some ts\<rparr>"

text \<open>
  The address query has failed on its first fetch, so it has no data; the two dependent
  queries are then not enabled and have no data either, and such a query reports
  \<open>isLoading\<close>.
\<close>

definition failed_address :: "TAddress UseQueryResult" where
  "failed_address = \<lparr>isLoading = False, isError = True, data = None\<rparr>"

definition failed_counters :: "AddressCounters UseQueryResult" where
  "failed_counters = \<lparr>isLoading = False, isError = True, data = None\<rparr>"

definition waiting_counters :: "AddressCounters UseQueryResult" where
  "waiting_counters = \<lparr>isLoading = True, isError = False, data = None\<rparr>"

definition waiting_tokens :: "nat list UseQueryResult" where
  "waiting_tokens = \<lparr>isLoading = True, isError = False, data = None\<rparr>"

section \<open>Profile button: properties\<close>

text \<open>
  C2. For every state (profile data present or absent, any current route) a single click
  performs exactly one of the three side effects: the handler makes exactly one call, and
  it is one of opening the menu popover, starting the wallet sign-in flow or opening the
  auth dialog.
\<close>

theorem click_exactly_one_effect:
  "length (handleProfileButtonClick d p) = 1 \<and>
   (handleProfileButtonClick d p = [ProfileMenuOpen] \<or>
    handleProfileButtonClick d p = [SignInWithWalletStart] \<or>
    handleProfileButtonClick d p = [AuthModalOpen])"
  by (simp add: handleProfileButtonClick_def split: option.split)

text \<open>
  C3. Whenever profile data is present, a click opens the profile menu popover and
  neither starts the wallet sign-in flow nor opens the auth dialog, whatever the route.
\<close>

theorem click_with_profile_opens_menu:
  assumes "d \<noteq> None"
  shows "handleProfileButtonClick d p = [ProfileMenuOpen] \<and>
         SignInWithWalletStart \<notin> set (handleProfileButtonClick d p) \<and>
         AuthModalOpen \<notin> set (handleProfileButtonClick d p)"
  using assms by (cases d) (simp_all add: handleProfileButtonClick_def)

theorem click_with_profile_opens_menu_witness:
  "Some (7::nat) \<noteq> None \<and>
   handleProfileButtonClick (Some (7::nat)) ''/apps/[id]'' = [ProfileMenuOpen] \<and>
   SignInWithWalletStart \<notin> set (handleProfileButtonClick (Some (7::nat)) ''/apps/[id]'') \<and>
   AuthModalOpen \<notin> set (handleProfileButtonClick (Some (7::nat)) ''/apps/[id]'')"
  using click_with_profile_opens_menu [of "Some (7::nat)" "''/apps/[id]''"] by simp

text \<open>
  C4. If profile data is absent and the current route is the app-detail route (pathname
  \<open>/apps/[id]\<close>), a click starts the wallet sign-in flow and does not open the auth
  dialog.
\<close>

theorem click_on_app_page_starts_wallet:
  assumes "d = None" and "p = ''/apps/[id]''"
  shows "handleProfileButtonClick d p = [SignInWithWalletStart] \<and>
         AuthModalOpen \<notin> set (handleProfileButtonClick d p)"
  using assms by (simp add: handleProfileButtonClick_def)

theorem click_on_app_page_starts_wallet_witness:
  "handleProfileButtonClick (None :: unit option) ''/apps/[id]'' = [SignInWithWalletStart] \<and>
   AuthModalOpen \<notin> set (handleProfileButtonClick (None :: unit option) ''/apps/[id]'')"
  using click_on_app_page_starts_wallet [of "None :: unit option" "''/apps/[id]''"] by simp

section \<open>Column checkbox: properties\<close>

lemma spread_copy_simps:
  "fst (spread_copy s a) = s\<lparr>objs := (objs s)(fresh s := objs s a), fresh := Suc (fresh s)\<rparr>"
  "snd (spread_copy s a) = fresh s"
  by (simp_all add: spread_copy_def)

lemma onCheckboxClick_calls:
  "snd (onCheckboxClick s columns event) = [OnChange (fresh s)]"
  by (simp add: onCheckboxClick_def spread_copy_def)

lemma onCheckboxClick_objs:
  "objs (fst (onCheckboxClick s columns event)) =
     (objs s)(fresh s := (objs s columns)(target_id event \<mapsto> target_checked event))"
  by (simp add: onCheckboxClick_def spread_copy_def assign_prop_def)

text \<open>
  C1 as stated fails: for the map \<open>{ a: true }\<close> and this change event of the checkbox
  of \<open>a\<close>, the callback receives a new object in which \<open>a\<close> is still \<open>true\<close>, not
  the negation of the map's value. The box can fire this event because it is
  uncontrolled: mounted while \<open>a\<close> was \<open>false\<close>, it stays unchecked when the caller
  later passes \<open>{ a: true }\<close>, and the next change checks it.
\<close>

theorem toggle_not_always_negated:
  "objs one_column 0 ''a'' = Some True \<and>
   snd (onCheckboxClick one_column 0 checked_a) = [OnChange 1] \<and>
   objs (fst (onCheckboxClick one_column 0 checked_a)) 1 ''a'' = Some True \<and>
   objs (fst (onCheckboxClick one_column 0 checked_a)) 1 \<noteq> (objs one_column 0)(''a'' \<mapsto> \<not> True)"
proof -
  have f: "fresh one_column = 1" and o: "objs one_column 0 = [''a'' \<mapsto> True]"
    by (simp_all add: one_column_def)
  have n: "objs (fst (onCheckboxClick one_column 0 checked_a)) 1 = [''a'' \<mapsto> True]"
    by (simp add: onCheckboxClick_objs f o checked_a_def)
  have "[''a'' \<mapsto> True] ''a'' \<noteq> ([''a'' \<mapsto> True](''a'' \<mapsto> \<not> True)) ''a''"
    by simp
  then have "[''a'' \<mapsto> True] \<noteq> [''a'' \<mapsto> True](''a'' \<mapsto> \<not> True)"
    by metis
  with n show ?thesis
    by (simp add: onCheckboxClick_calls f o)
qed

text \<open>
  C1, amended. For every store, every allocated visibility map \<open>columns\<close> and every
  change event, the handler calls \<open>onChange\<close> exactly once before it returns, with a
  newly allocated object that equals the map except that the value at the event's key is
  the checkbox's state after the change (\<open>event.target.checked\<close>); every object that
  existed before, the input map among them, is left as it was. When the box showed the
  map's value at \<open>k\<close> before the change, the value passed is the negation of the map's
  value at \<open>k\<close>.
\<close>

theorem toggle_copies_and_sets_key:
  assumes "columns < fresh s"
  shows "snd (onCheckboxClick s columns event) = [OnChange (fresh s)] \<and>
         fresh s \<noteq> columns \<and>
         objs (fst (onCheckboxClick s columns event)) (fresh s) =
           (objs s columns)(target_id event \<mapsto> target_checked event) \<and>
         (\<forall>a. a < fresh s \<longrightarrow> objs (fst (onCheckboxClick s columns event)) a = objs s a) \<and>
         objs (fst (onCheckboxClick s columns event)) columns = objs s columns \<and>
         (\<forall>k b. objs s columns k = Some b \<longrightarrow>
            objs (fst (onCheckboxClick s columns (change_of k b))) (fresh s) =
              (objs s columns)(k \<mapsto> \<not> b))"
  using assms
  by (simp add: onCheckboxClick_calls onCheckboxClick_objs change_of_def)

theorem toggle_copies_and_sets_key_witness:
  "(0::nat) < fresh one_column \<and>
   snd (onCheckboxClick one_column 0 (change_of ''a'' True)) = [OnChange 1] \<and>
   objs (fst (onCheckboxClick one_column 0 (change_of ''a'' True))) 1 = [''a'' \<mapsto> False] \<and>
   objs (fst (onCheckboxClick one_column 0 (change_of ''a'' True))) 0 = [''a'' \<mapsto> True]"
proof -
  have f: "fresh one_column = 1" and o: "objs one_column 0 = [''a'' \<mapsto> True]"
    by (simp_all add: one_column_def)
  have h: "(0::nat) < fresh one_column" by (simp add: f)
  have e: "target_id (change_of ''a'' True) = ''a''" "target_checked (change_of ''a'' True) = False"
    by (simp_all add: change_of_def)
  show ?thesis
    using toggle_copies_and_sets_key [OF h, of "change_of ''a'' True"]
    by (simp add: f o e)
qed

section \<open>The number conversion: checks\<close>

text \<open>
  \<open>floor_log2\<close> finds the binary exponent of a positive rational, and
  \<open>round_half_even\<close> is within one half of its argument.
\<close>

lemma pow_powi: "pow b e = b powi e"
  by (simp add: pow_def power_int_def power_one_over inverse_eq_divide)

lemma bit_length_bitlen: "bit_length n = bitlen n"
proof (induction n rule: bit_length.induct)
  case (1 n)
  show ?case
  proof (cases "n \<le> 0")
    case True
    then show ?thesis by (simp add: bit_length.simps [of n] compute_bitlen [of n])
  next
    case False
    with 1 have "bit_length (n div 2) = bitlen (n div 2)" by simp
    with False show ?thesis
      by (simp add: bit_length.simps [of n] compute_bitlen [of n])
  qed
qed

lemma bit_length_bounds:
  assumes "0 < n"
  shows "1 \<le> bit_length n"
    and "(2::rat) powi (bit_length n - 1) \<le> of_int n"
    and "of_int n < (2::rat) powi bit_length n"
proof -
  have "0 \<le> bitlen n" "bitlen n \<noteq> 0"
    using assms by (simp_all add: bitlen_nonneg bitlen_eq_zero_iff)
  then show l: "1 \<le> bit_length n"
    by (simp add: bit_length_bitlen)
  from bitlen_bounds [OF assms]
  have i: "2 ^ nat (bit_length n - 1) \<le> n" "n < 2 ^ nat (bit_length n)"
    by (simp_all add: bit_length_bitlen)
  have "(2::rat) powi (bit_length n - 1) = of_int (2 ^ nat (bit_length n - 1))"
    using l by (simp add: power_int_def)
  also have "\<dots> \<le> of_int n"
    using i(1) by (simp only: of_int_le_iff)
  finally show "(2::rat) powi (bit_length n - 1) \<le> of_int n" .
  have "(of_int n :: rat) < of_int (2 ^ nat (bit_length n))"
    using i(2) by (simp only: of_int_less_iff)
  also have "\<dots> = 2 powi bit_length n"
    using l by (simp add: power_int_def)
  finally show "of_int n < (2::rat) powi bit_length n" .
qed

lemma floor_log2_bounds:
  assumes "0 < q"
  shows "pow 2 (floor_log2 q) \<le> q \<and> q < pow 2 (floor_log2 q + 1)"
proof -
  obtain a b where ab: "quotient_of q = (a, b)" by (cases "quotient_of q")
  then have b: "0 < b" and q: "q = of_int a / of_int b"
    using quotient_of_denom_pos quotient_of_div by auto
  with assms have a: "0 < a"
    by (simp add: zero_less_divide_iff)
  define la where "la = bit_length a"
  define lb where "lb = bit_length b"
  define k where "k = la - lb"
  note A = bit_length_bounds [OF a, folded la_def]
  note B = bit_length_bounds [OF b, folded lb_def]
  have "q < 2 powi la / 2 powi (lb - 1)"
    unfolding q using a b A B by (intro frac_less) simp_all
  also have "\<dots> = 2 powi (k + 1)"
    by (simp add: k_def power_int_diff [symmetric] algebra_simps)
  finally have up: "q < 2 powi (k + 1)" .
  have "(2::rat) powi (k - 1) = 2 powi (la - 1) / 2 powi lb"
    by (simp add: k_def power_int_diff [symmetric] algebra_simps)
  also have "\<dots> < q"
    unfolding q using a b A B by (intro frac_less2) simp_all
  finally have lo: "2 powi (k - 1) < q" .
  have fl: "floor_log2 q = (if 2 powi k \<le> q then k else k - 1)"
    by (simp add: floor_log2_def ab k_def la_def lb_def pow_powi)
  show ?thesis
    using up lo by (auto simp: fl pow_powi)
qed

lemma round_half_even_nearest: "\<bar>x - of_int (round_half_even x)\<bar> \<le> 1 / 2"
proof -
  have "of_int \<lfloor>x\<rfloor> \<le> x" "x < of_int \<lfloor>x\<rfloor> + 1"
    by linarith+
  then show ?thesis
    by (auto simp: round_half_even_def Let_def abs_le_iff)
qed

text \<open>The conversion on some strings, with the values JavaScript gives.\<close>

lemma Number_decimal_examples:
  "Number '' 12.5e1 '' = Fin 125"
  "Number ''.5'' = Fin (1 / 2)"
  "Number ''-0'' = NegZero"
  "Number '''' = Fin 0"
  by code_simp+

lemma Number_prefixed_examples:
  "Number ''0x1F'' = Fin 31"
  "Number ''+0x1F'' = NaN"
  by code_simp+

lemma Number_NaN_examples:
  "Number ''abc'' = NaN"
  "Number ''12px'' = NaN"
  "Number ''1,000'' = NaN"
  "Number ''.'' = NaN"
  "Number ''5e'' = NaN"
  "Number ''--5'' = NaN"
  by code_simp+

lemma Number_rounding_examples:
  "Number ''0.1'' = Fin (3602879701896397 / 36028797018963968)"
  "Number ''9007199254740993'' = Fin 9007199254740992"
  "Number ''Infinity'' = PosInfinity"
  "Number ''-Infinity'' = NegInfinity"
  by code_simp+

section \<open>Address details: properties\<close>

subsection \<open>The three outcomes of the render\<close>

lemma AddressDetails_loading:
  assumes "isLoading cq \<or> isLoading aq \<or> isLoading tq"
  shows "AddressDetails h aq cq tq = Inr AddressDetailsSkeleton"
  using assms by (simp add: AddressDetails_def)

lemma AddressDetails_error:
  assumes "\<not> isLoading cq" "\<not> isLoading aq" "\<not> isLoading tq"
    and "isError cq \<or> isError aq \<or> isError tq"
  shows "AddressDetails h aq cq tq = Inr DataFetchAlert"
  using assms by (simp add: AddressDetails_def)

lemma explorer_links_total:
  assumes "list_all (\<lambda>e. URL_toString h (url_input h e) (baseUrl e) \<noteq> None) es"
  shows "\<exists>ls. explorer_links h es = Inr ls \<and> list_all2 (link_of h) es ls"
  using assms
proof (induction es)
  case Nil
  show ?case by simp
next
  case (Cons e es)
  then obtain ls where ls: "explorer_links h es = Inr ls" "list_all2 (link_of h) es ls"
    by auto
  from Cons.prems obtain u where u: "URL_toString h (url_input h e) (baseUrl e) = Some u"
    by auto
  have "link_of h e \<lparr>link_key = baseUrl e, link_title = title e, href = u\<rparr>"
    using u by (simp add: link_of_def url_input_def)
  with ls u show ?case by simp
qed

lemma AddressDetails_summary:
  assumes "\<not> isLoading cq" "\<not> isLoading aq" "\<not> isLoading tq"
    and "\<not> isError cq" "\<not> isError aq" "\<not> isError tq"
    and "data cq = Some c" "data aq = Some a" "data tq = Some ts"
    and "links_resolve h"
  shows "\<exists>ls. list_all2 (link_of h) (explorers_with_address h) ls \<and>
           AddressDetails h aq cq tq =
             Inr (Box
               \<lparr>icon_hash = hash a,
                hash_shown = (if isMobile h then HashStringShorten (hash a) else PlainHash (hash a)),
                copy_text = hash a,
                verify_links = (if explorers_with_address h = [] then None else Some ls),
                tokens = tokens_item h ts,
                transactions = toLocaleString h (Number (transactions_count c)),
                transfers = toLocaleString h (Number (token_transfers_count c)),
                gas_used = BigNumber_toFormat h (gas_usage_count c),
                blocks_validated = blocks_validated_item h (Number (validations_count c))\<rparr>)"
proof -
  from assms(10) obtain ls where
    ls: "explorer_links h (explorers_with_address h) = Inr ls"
        "list_all2 (link_of h) (explorers_with_address h) ls"
    using explorer_links_total unfolding links_resolve_def by blast
  have "AddressDetails h aq cq tq =
             Inr (Box
               \<lparr>icon_hash = hash a,
                hash_shown = (if isMobile h then HashStringShorten (hash a) else PlainHash (hash a)),
                copy_text = hash a,
                verify_links = (if explorers_with_address h = [] then None else Some ls),
                tokens = tokens_item h ts,
                transactions = toLocaleString h (Number (transactions_count c)),
                transfers = toLocaleString h (Number (token_transfers_count c)),
                gas_used = BigNumber_toFormat h (gas_usage_count c),
                blocks_validated = blocks_validated_item h (Number (validations_count c))\<rparr>)"
    using assms(1-9) ls(1) by (simp add: AddressDetails_def)
  with ls(2) show ?thesis by blast
qed

subsection \<open>Facts about the example inputs\<close>

lemma Number_0: "Number ''0'' = Fin 0"
  by code_simp

lemma Number_5: "Number ''5'' = Fin 5"
  by code_simp

lemma Number_minus_5: "Number ''-5'' = Fin (- 5)"
  by code_simp

lemma whole_digits_5: "whole_digits (Fin 5) = ''5''"
  by code_simp

lemma example_explorers:
  "explorers_with_address example_host =
     [\<lparr>title = ''Etherscan'', baseUrl = ''https://etherscan.io'',
       paths = \<lparr>tx = Str ''/tx'', address = Str ''/address''\<rparr>\<rparr>]"
  by (simp add: explorers_with_address_def example_host_def)

lemma example_links_resolve: "links_resolve example_host"
  unfolding links_resolve_def example_explorers
  by (simp add: example_host_def)

lemma example_links:
  "explorer_links example_host
     [\<lparr>title = ''Etherscan'', baseUrl = ''https://etherscan.io'',
       paths = \<lparr>tx = Str ''/tx'', address = Str ''/address''\<rparr>\<rparr>] =
     Inr [\<lparr>link_key = ''https://etherscan.io'', link_title = ''Etherscan'',
           href = ''https://etherscan.io/tx/0xabc''\<rparr>]"
  by (simp add: example_host_def url_input_def)

lemma example_render:
  "AddressDetails example_host loaded_address (loaded_counters s) (loaded_tokens ts) =
     Inr (Box
       \<lparr>icon_hash = ''0xabc'', hash_shown = PlainHash ''0xabc'', copy_text = ''0xabc'',
        verify_links = Some [\<lparr>link_key = ''https://etherscan.io'', link_title = ''Etherscan'',
                              href = ''https://etherscan.io/tx/0xabc''\<rparr>],
        tokens = tokens_item example_host ts,
        transactions = whole_digits (Number ''12''),
        transfers = whole_digits (Number ''3''),
        gas_used = ''21000'',
        blocks_validated = blocks_validated_item example_host (Number s)\<rparr>)"
proof -
  have h: "isMobile example_host = False" "toLocaleString example_host = whole_digits"
    "BigNumber_toFormat example_host = (\<lambda>s. s)"
    by (simp_all add: example_host_def)
  show ?thesis
    by (simp add: AddressDetails_def example_explorers example_links h
        loaded_address_def loaded_counters_def loaded_tokens_def
        del: explorer_links.simps)
qed

subsection \<open>Loading and error states\<close>

text \<open>
  C5. If any one of the three queries (address info, counters, token balances) is in a
  loading state, the component returns the skeleton placeholder and renders none of the
  summary fields: the result is the skeleton, and so not a summary view.
\<close>

theorem loading_renders_skeleton:
  assumes "isLoading aq \<or> isLoading cq \<or> isLoading tq"
  shows "AddressDetails h aq cq tq = Inr AddressDetailsSkeleton \<and>
         (\<forall>v. AddressDetails h aq cq tq \<noteq> Inr (Box v))"
proof -
  from assms have "isLoading cq \<or> isLoading aq \<or> isLoading tq" by blast
  then have "AddressDetails h aq cq tq = Inr AddressDetailsSkeleton"
    by (rule AddressDetails_loading)
  then show ?thesis by simp
qed

theorem loading_renders_skeleton_witness:
  "AddressDetails example_host loaded_address waiting_counters (loaded_tokens [])
     = Inr AddressDetailsSkeleton"
proof -
  have "isLoading loaded_address \<or> isLoading waiting_counters \<or> isLoading (loaded_tokens [])"
    by (simp add: waiting_counters_def)
  from loading_renders_skeleton [OF this, of example_host] show ?thesis by simp
qed

text \<open>
  C6. If any of the three queries (address info, counters, token balances) is in an error
  state, the component is to render the generic fetch-failure notice instead of the
  summary view. It does when a dependent query fails. It does not when the address query
  fails on its first fetch: having no data, the address query leaves both dependent
  queries not enabled, a query that is not enabled and has no data reports \<open>isLoading\<close>,
  and the loading test of line 117 comes before the error test of line 121, which names
  \<open>addressQuery.isError\<close>. The component then renders the skeleton, and goes on doing
  so, since nothing enables the dependent queries.
\<close>

theorem failed_address_query_renders_skeleton:
  "isError failed_address \<and> data failed_address = None \<and>
   \<not> enabled (countersQuery_setup example_host failed_address) \<and>
   \<not> enabled (tokenBalancesQuery_setup example_host failed_address) \<and>
   AddressDetails example_host failed_address waiting_counters waiting_tokens
     = Inr AddressDetailsSkeleton \<and>
   AddressDetails example_host failed_address waiting_counters waiting_tokens
     \<noteq> Inr DataFetchAlert \<and>
   AddressDetails example_host loaded_address failed_counters (loaded_tokens [])
     = Inr DataFetchAlert"
proof -
  have "isLoading waiting_counters \<or> isLoading failed_address \<or> isLoading waiting_tokens"
    by (simp add: waiting_counters_def)
  then have s: "AddressDetails example_host failed_address waiting_counters waiting_tokens
               = Inr AddressDetailsSkeleton"
    by (rule AddressDetails_loading)
  have "AddressDetails example_host loaded_address failed_counters (loaded_tokens [])
          = Inr DataFetchAlert"
    by (rule AddressDetails_error)
       (simp_all add: loaded_address_def failed_counters_def loaded_tokens_def)
  with s show ?thesis
    by (simp add: failed_address_def countersQuery_setup_def tokenBalancesQuery_setup_def)
qed

subsection \<open>The summary view\<close>

text \<open>
  C7 as stated fails: \<open>"-5"\<close> parses to a valid non-zero number, yet the "Blocks
  validated" line is omitted.
\<close>

theorem negative_count_omits_blocks_validated:
  "Number ''-5'' = Fin (- 5) \<and> \<not> Object_is (Number ''-5'') NaN \<and>
   Number ''-5'' \<noteq> Fin 0 \<and> Number ''-5'' \<noteq> NegZero \<and>
   AddressDetails example_host loaded_address (loaded_counters ''-5'') (loaded_tokens []) =
     Inr (Box
       \<lparr>icon_hash = ''0xabc'', hash_shown = PlainHash ''0xabc'', copy_text = ''0xabc'',
        verify_links = Some [\<lparr>link_key = ''https://etherscan.io'', link_title = ''Etherscan'',
                              href = ''https://etherscan.io/tx/0xabc''\<rparr>],
        tokens = Text ''-'',
        transactions = whole_digits (Number ''12''),
        transfers = whole_digits (Number ''3''),
        gas_used = ''21000'',
        blocks_validated = None\<rparr>)"
  by (simp add: example_render Number_minus_5 Object_is_def blocks_validated_item_def
      tokens_item_def)

text \<open>
  C7, amended. In the summary view the "Blocks validated" line renders exactly when the
  counters' \<open>validations_count\<close> string parses to a valid number greater than zero, and
  then it shows that number formatted by the host's locale; in particular given
  \<open>validations_count = "0"\<close> the line is omitted, and given \<open>"5"\<close> the line renders the
  number 5, which is the text \<open>"5"\<close> when the locale prints 5 so.
\<close>

theorem blocks_validated_iff_positive:
  assumes "\<not> isLoading aq" "\<not> isLoading cq" "\<not> isLoading tq"
    and "\<not> isError aq" "\<not> isError cq" "\<not> isError tq"
    and "data aq = Some a" "data cq = Some c" "data tq = Some ts"
    and "links_resolve h"
  shows "\<exists>v. AddressDetails h aq cq tq = Inr (Box v) \<and>
           (blocks_validated v \<noteq> None \<longleftrightarrow>
              Number (validations_count c) \<noteq> NaN \<and> js_gt (Number (validations_count c)) 0) \<and>
           (blocks_validated v \<noteq> None \<longrightarrow>
              blocks_validated v = Some (toLocaleString h (Number (validations_count c)))) \<and>
           (validations_count c = ''0'' \<longrightarrow> blocks_validated v = None) \<and>
           (validations_count c = ''5'' \<longrightarrow>
              blocks_validated v = Some (toLocaleString h (Fin 5)) \<and>
              (toLocaleString h (Fin 5) = ''5'' \<longrightarrow> blocks_validated v = Some ''5''))"
proof -
  from AddressDetails_summary [OF assms(2) assms(1) assms(3) assms(5) assms(4) assms(6)
      assms(8) assms(7) assms(9) assms(10)]
  obtain v where v: "AddressDetails h aq cq tq = Inr (Box v)"
    and b: "blocks_validated v = blocks_validated_item h (Number (validations_count c))"
    by force
  have "blocks_validated_item h (Number ''0'') = None"
    by (simp add: blocks_validated_item_def Number_0)
  moreover have "blocks_validated_item h (Number ''5'') = Some (toLocaleString h (Fin 5))"
    by (simp add: blocks_validated_item_def Number_5 Object_is_def)
  ultimately show ?thesis
    using v b by (auto simp: blocks_validated_item_def Object_is_def)
qed

theorem blocks_validated_iff_positive_witness:
  "\<exists>v. AddressDetails example_host loaded_address (loaded_counters ''5'') (loaded_tokens [])
          = Inr (Box v) \<and>
        blocks_validated v = Some ''5''"
proof -
  have c: "data (loaded_counters ''5'') =
             Some \<lparr>transactions_count = ''12'', token_transfers_count = ''3'',
                   gas_usage_count = ''21000'', validations_count = ''5''\<rparr>"
    by (simp add: loaded_counters_def)
  have t: "toLocaleString example_host (Fin 5) = ''5''"
    by (simp add: example_host_def whole_digits_5)
  from blocks_validated_iff_positive [of loaded_address "loaded_counters ''5''" "loaded_tokens []"
      "\<lparr>hash = ''0xabc''\<rparr>" _ "[]" example_host, OF _ _ _ _ _ _ _ c _ example_links_resolve] t
  show ?thesis
    by (auto simp: loaded_address_def loaded_counters_def loaded_tokens_def)
qed

text \<open>
  C8. In the summary view, when the token-balances query has succeeded with an empty
  list of records the Tokens cell renders the placeholder dash \<open>-\<close>; when the list is
  not empty it renders a token selector (the mobile or the desktop one) instead.
\<close>

theorem tokens_cell_dash_iff_empty:
  assumes "\<not> isLoading aq" "\<not> isLoading cq" "\<not> isLoading tq"
    and "\<not> isError aq" "\<not> isError cq" "\<not> isError tq"
    and "data aq = Some a" "data cq = Some c" "data tq = Some ts"
    and "links_resolve h"
  shows "\<exists>v. AddressDetails h aq cq tq = Inr (Box v) \<and>
           (ts = [] \<longrightarrow> tokens v = Text ''-'') \<and>
           (ts \<noteq> [] \<longrightarrow>
              tokens v = (if isMobile h then TokenSelectMobile ts else TokenSelectDesktop ts) \<and>
              tokens v \<noteq> Text ''-'')"
proof -
  from AddressDetails_summary [OF assms(2) assms(1) assms(3) assms(5) assms(4) assms(6)
      assms(8) assms(7) assms(9) assms(10)]
  obtain v where v: "AddressDetails h aq cq tq = Inr (Box v)"
    and t: "tokens v = tokens_item h ts"
    by force
  then show ?thesis
    by (auto simp: tokens_item_def)
qed

theorem tokens_cell_dash_iff_empty_witness:
  "(\<exists>v. AddressDetails example_host loaded_address (loaded_counters ''0'') (loaded_tokens [])
           = Inr (Box v) \<and> tokens v = Text ''-'') \<and>
   (\<exists>v. AddressDetails example_host loaded_address (loaded_counters ''0'') (loaded_tokens [7])
           = Inr (Box v) \<and> tokens v = TokenSelectDesktop [7])"
proof -
  have c: "data (loaded_counters ''0'') =
             Some \<lparr>transactions_count = ''12'', token_transfers_count = ''3'',
                   gas_usage_count = ''21000'', validations_count = ''0''\<rparr>"
    by (simp add: loaded_counters_def)
  have m: "\<not> isMobile example_host"
    by (simp add: example_host_def)
  have 1: "\<exists>v. AddressDetails example_host loaded_address (loaded_counters ''0'') (loaded_tokens [])
           = Inr (Box v) \<and> tokens v = Text ''-''"
    using tokens_cell_dash_iff_empty [of loaded_address "loaded_counters ''0''" "loaded_tokens []"
      "\<lparr>hash = ''0xabc''\<rparr>" _ "[]" example_host, OF _ _ _ _ _ _ _ c _ example_links_resolve]
    by (auto simp: loaded_address_def loaded_counters_def loaded_tokens_def)
  have 2: "\<exists>v. AddressDetails example_host loaded_address (loaded_counters ''0'') (loaded_tokens [7])
           = Inr (Box v) \<and> tokens v = TokenSelectDesktop [7]"
    using tokens_cell_dash_iff_empty [of loaded_address "loaded_counters ''0''" "loaded_tokens [7]"
      "\<lparr>hash = ''0xabc''\<rparr>" _ "[7]" example_host, OF _ _ _ _ _ _ _ c _ example_links_resolve] m
    by (auto simp: loaded_address_def loaded_counters_def loaded_tokens_def)
  from 1 2 show ?thesis by blast
qed

subsection \<open>The two dependent queries\<close>

text \<open>
  C9 as stated fails: for the address \<open>0xabc\<close> the requests do not go to
  \<open>/addresses/0xabc/counters\<close> and \<open>/addresses/0xabc/token-balances\<close>; both
  resources carry the prefix \<open>/node-api\<close>.
\<close>

theorem fetch_resources_have_prefix:
  "router_query_id example_host = Str ''0xabc'' \<and>
   request_url (queryFn (countersQuery_setup example_host loaded_address))
     = ''/node-api/addresses/0xabc/counters'' \<and>
   request_url (queryFn (countersQuery_setup example_host loaded_address))
     \<noteq> ''/addresses/0xabc/counters'' \<and>
   request_url (queryFn (tokenBalancesQuery_setup example_host loaded_address))
     = ''/node-api/addresses/0xabc/token-balances'' \<and>
   request_url (queryFn (tokenBalancesQuery_setup example_host loaded_address))
     \<noteq> ''/addresses/0xabc/token-balances''"
  by (simp add: countersQuery_setup_def tokenBalancesQuery_setup_def fetch_def example_host_def)

text \<open>
  C9, amended. The counters and token-balances queries issue GET requests to
  \<open>/node-api/addresses/{id}/counters\<close> and \<open>/node-api/addresses/{id}/token-balances\<close>
  respectively (the paths of the claim behind the prefix \<open>/node-api\<close>, with the route
  parameter converted to a string for \<open>{id}\<close>), both keyed by the route-derived address
  identifier, and each query is enabled only when the route parameter is present and the
  address-info query has data: it is enabled exactly when the route parameter is truthy
  and the address-info query has data.
\<close>

theorem dependent_queries_setup:
  "request_method (queryFn (countersQuery_setup h aq)) = GET \<and>
   request_method (queryFn (tokenBalancesQuery_setup h aq)) = GET \<and>
   request_url (queryFn (countersQuery_setup h aq))
     = ''/node-api'' @ ''/addresses/'' @ ToString (router_query_id h) @ ''/counters'' \<and>
   request_url (queryFn (tokenBalancesQuery_setup h aq))
     = ''/node-api'' @ ''/addresses/'' @ ToString (router_query_id h) @ ''/token-balances'' \<and>
   queryKey (countersQuery_setup h aq) = (addressCounters, router_query_id h) \<and>
   queryKey (tokenBalancesQuery_setup h aq) = (addressTokenBalances, router_query_id h) \<and>
   (enabled (countersQuery_setup h aq) \<longleftrightarrow> Boolean (router_query_id h) \<and> data aq \<noteq> None) \<and>
   (enabled (tokenBalancesQuery_setup h aq) \<longleftrightarrow> Boolean (router_query_id h) \<and> data aq \<noteq> None) \<and>
   (enabled (countersQuery_setup h aq) \<longrightarrow> router_query_id h \<noteq> Undefined \<and> data aq \<noteq> None) \<and>
   (enabled (tokenBalancesQuery_setup h aq) \<longrightarrow> router_query_id h \<noteq> Undefined \<and> data aq \<noteq> None)"
  by (cases "router_query_id h")
     (simp_all add: countersQuery_setup_def tokenBalancesQuery_setup_def fetch_def)

theorem dependent_queries_setup_witness:
  "queryFn (countersQuery_setup example_host loaded_address)
     = \<lparr>request_method = GET, request_url = ''/node-api/addresses/0xabc/counters''\<rparr> \<and>
   queryFn (tokenBalancesQuery_setup example_host loaded_address)
     = \<lparr>request_method = GET, request_url = ''/node-api/addresses/0xabc/token-balances''\<rparr> \<and>
   queryKey (countersQuery_setup example_host loaded_address) = (addressCounters, Str ''0xabc'') \<and>
   queryKey (tokenBalancesQuery_setup example_host loaded_address)
     = (addressTokenBalances, Str ''0xabc'') \<and>
   enabled (countersQuery_setup example_host loaded_address) \<and>
   enabled (tokenBalancesQuery_setup example_host loaded_address) \<and>
   \<not> enabled (countersQuery_setup example_host failed_address) \<and>
   \<not> enabled (tokenBalancesQuery_setup example_host failed_address)"
proof -
  have r: "router_query_id example_host = Str ''0xabc''"
    by (simp add: example_host_def)
  have d: "data loaded_address \<noteq> None" "data failed_address = None"
    by (simp_all add: loaded_address_def failed_address_def)
  from dependent_queries_setup [of example_host loaded_address]
       dependent_queries_setup [of example_host failed_address] r d
  show ?thesis by (simp add: http_request.equality)
qed

subsection \<open>Links to other explorers\<close>

lemma explorer_links_address_irrelevant:
  "explorer_links (with_address_paths f h)
     (map (\<lambda>e. e\<lparr>paths := (paths e)\<lparr>address := f e\<rparr>\<rparr>) es) = explorer_links h es"
proof (induction es)
  case Nil
  show ?case by simp
next
  case (Cons e es)
  have "url_input (with_address_paths f h) (e\<lparr>paths := (paths e)\<lparr>address := f e\<rparr>\<rparr>)
          = url_input h e"
    by (simp add: url_input_def with_address_paths_def)
  moreover have "URL_toString (with_address_paths f h) = URL_toString h"
    by (simp add: with_address_paths_def)
  ultimately show ?case
    using Cons.IH by (simp split: option.split sum.split)
qed

lemma explorers_with_address_replaced:
  assumes "\<forall>e \<in> set (network_explorers h). Boolean (f e) = Boolean (address (paths e))"
  shows "explorers_with_address (with_address_paths f h) =
           map (\<lambda>e. e\<lparr>paths := (paths e)\<lparr>address := f e\<rparr>\<rparr>) (explorers_with_address h)"
proof -
  have "filter (\<lambda>e. Boolean (f e)) (network_explorers h) =
        filter (\<lambda>e. Boolean (address (paths e))) (network_explorers h)"
    using assms by (intro filter_cong) auto
  then show ?thesis
    by (simp add: explorers_with_address_def with_address_paths_def filter_map comp_def)
qed

lemma AddressDetails_address_irrelevant:
  assumes "\<forall>e \<in> set (network_explorers h). Boolean (f e) = Boolean (address (paths e))"
  shows "AddressDetails (with_address_paths f h) aq cq tq = AddressDetails h aq cq tq"
proof -
  have "isMobile (with_address_paths f h) = isMobile h"
    "toLocaleString (with_address_paths f h) = toLocaleString h"
    "BigNumber_toFormat (with_address_paths f h) = BigNumber_toFormat h"
    by (simp_all add: with_address_paths_def)
  then show ?thesis
    unfolding AddressDetails_def explorers_with_address_replaced [OF assms]
    by (simp add: Let_def explorer_links_address_irrelevant tokens_item_def
        blocks_validated_item_def split: option.split sum.split)
qed

text \<open>
  C10. The explorers shown under "Verify with other explorers" are those whose
  configuration defines a (truthy) address path template, and the section is omitted
  when there is none. Yet for every explorer that passes this filter the link is built
  from the explorer's transaction path template \<open>paths.tx\<close> concatenated with a slash
  and the route id, resolved against the explorer's base URL; the address path template
  plays no part in it: replacing the address templates by any others that pass the filter
  for the same explorers leaves what is rendered unchanged.
\<close>

theorem explorer_links_use_tx_path:
  assumes "\<not> isLoading aq" "\<not> isLoading cq" "\<not> isLoading tq"
    and "\<not> isError aq" "\<not> isError cq" "\<not> isError tq"
    and "data aq = Some a" "data cq = Some c" "data tq = Some ts"
    and "links_resolve h"
  shows "\<exists>v ls. AddressDetails h aq cq tq = Inr (Box v) \<and>
           verify_links v =
             (if filter (\<lambda>e. Boolean (address (paths e))) (network_explorers h) = []
              then None else Some ls) \<and>
           list_all2
             (\<lambda>e l. link_key l = baseUrl e \<and> link_title l = title e \<and>
                    URL_toString h (ToString (tx (paths e)) @ ''/'' @ ToString (router_query_id h))
                      (baseUrl e) = Some (href l))
             (filter (\<lambda>e. Boolean (address (paths e))) (network_explorers h)) ls \<and>
           (\<forall>f. (\<forall>e \<in> set (network_explorers h). Boolean (f e) = Boolean (address (paths e))) \<longrightarrow>
                AddressDetails (with_address_paths f h) aq cq tq = Inr (Box v))"
proof -
  from AddressDetails_summary [OF assms(2) assms(1) assms(3) assms(5) assms(4) assms(6)
      assms(8) assms(7) assms(9) assms(10)]
  obtain v ls where v: "AddressDetails h aq cq tq = Inr (Box v)"
    and l: "verify_links v = (if explorers_with_address h = [] then None else Some ls)"
    and r: "list_all2 (link_of h) (explorers_with_address h) ls"
    by force
  have "link_of h = (\<lambda>e l. link_key l = baseUrl e \<and> link_title l = title e \<and>
          URL_toString h (ToString (tx (paths e)) @ ''/'' @ ToString (router_query_id h))
            (baseUrl e) = Some (href l))"
    by (intro ext) (simp add: link_of_def)
  with r l v show ?thesis
    unfolding explorers_with_address_def
    by (auto simp: AddressDetails_address_irrelevant)
qed

theorem explorer_links_use_tx_path_witness:
  "\<exists>v. AddressDetails example_host loaded_address (loaded_counters ''5'') (loaded_tokens [])
          = Inr (Box v) \<and>
        verify_links v = Some [\<lparr>link_key = ''https://etherscan.io'', link_title = ''Etherscan'',
                                href = ''https://etherscan.io/tx/0xabc''\<rparr>] \<and>
        AddressDetails (with_address_paths (\<lambda>e. if title e = ''Etherscan'' then Str ''/a'' else Undefined)
                          example_host)
          loaded_address (loaded_counters ''5'') (loaded_tokens []) = Inr (Box v)"
proof -
  have c: "data (loaded_counters ''5'') =
             Some \<lparr>transactions_count = ''12'', token_transfers_count = ''3'',
                   gas_usage_count = ''21000'', validations_count = ''5''\<rparr>"
    by (simp add: loaded_counters_def)
  have n: "network_explorers example_host =
        [\<lparr>title = ''Etherscan'', baseUrl = ''https://etherscan.io'',
          paths = \<lparr>tx = Str ''/tx'', address = Str ''/address''\<rparr>\<rparr>,
         \<lparr>title = ''Other'', baseUrl = ''https://other.example'',
          paths = \<lparr>tx = Str ''/transaction'', address = Undefined\<rparr>\<rparr>]"
    and u: "URL_toString example_host = (\<lambda>input base. if base = [] then None else Some (base @ input))"
    and q: "router_query_id example_host = Str ''0xabc''"
    by (simp_all add: example_host_def)
  from explorer_links_use_tx_path [of loaded_address "loaded_counters ''5''" "loaded_tokens []"
      "\<lparr>hash = ''0xabc''\<rparr>" _ "[]" example_host, OF _ _ _ _ _ _ _ c _ example_links_resolve]
  obtain v ls where v: "AddressDetails example_host loaded_address (loaded_counters ''5'')
        (loaded_tokens []) = Inr (Box v)"
    and l: "verify_links v =
             (if filter (\<lambda>e. Boolean (address (paths e))) (network_explorers example_host) = []
              then None else Some ls)"
    and r: "list_all2
             (\<lambda>e l. link_key l = baseUrl e \<and> link_title l = title e \<and>
                    URL_toString example_host
                      (ToString (tx (paths e)) @ ''/'' @ ToString (router_query_id example_host))
                      (baseUrl e) = Some (href l))
             (filter (\<lambda>e. Boolean (address (paths e))) (network_explorers example_host)) ls"
    and i: "\<forall>f. (\<forall>e \<in> set (network_explorers example_host).
                   Boolean (f e) = Boolean (address (paths e))) \<longrightarrow>
                AddressDetails (with_address_paths f example_host) loaded_address
                  (loaded_counters ''5'') (loaded_tokens []) = Inr (Box v)"
    by (auto simp: loaded_address_def loaded_counters_def loaded_tokens_def)
  from r have "ls = [\<lparr>link_key = ''https://etherscan.io'', link_title = ''Etherscan'',
                      href = ''https://etherscan.io/tx/0xabc''\<rparr>]"
    by (auto simp: n u q list_all2_Cons1 intro!: ExternalLink.equality)
  with l have "verify_links v = Some [\<lparr>link_key = ''https://etherscan.io'',
      link_title = ''Etherscan'', href = ''https://etherscan.io/tx/0xabc''\<rparr>]"
    by (simp add: n)
  moreover from i have "AddressDetails
      (with_address_paths (\<lambda>e. if title e = ''Etherscan'' then Str ''/a'' else Undefined)
         example_host)
      loaded_address (loaded_counters ''5'') (loaded_tokens []) = Inr (Box v)"
    by (simp add: n)
  ultimately show ?thesis using v by blast
qed

end
